theory Spec2Isabelle
  imports Complex_Main
begin

section \<open>Python values\<close>

text \<open>
  The upstream client returns parsed JSON (\<^verbatim>\<open>List[Dict[str, Any]]\<close>). A value of type
  \<^verbatim>\<open>Any\<close> is one of the shapes \<^verbatim>\<open>json.loads\<close> produces. Python's \<^verbatim>\<open>None\<close> is \<open>JNull\<close>.
  A number is modelled by the rational it denotes: the service does no arithmetic, it
  only tests numbers for zero and hands them on.
\<close>

datatype json =
    JNull
  | JBool bool
  | JNum rat
  | JStr string
  | JArr "json list"
  | JObj "(string \<times> json) list"

type_synonym raw_record = "string \<rightharpoonup> json"

text \<open>\<^verbatim>\<open>d.get(key)\<close>: the value stored under the key, \<^verbatim>\<open>None\<close> when the key is missing.\<close>

definition dict_get :: "raw_record \<Rightarrow> string \<Rightarrow> json" where
  "dict_get d k = (case d k of None \<Rightarrow> JNull | Some v \<Rightarrow> v)"

text \<open>Python truth value testing: \<^verbatim>\<open>None\<close>, \<^verbatim>\<open>False\<close>, zero and empty containers are false.\<close>

fun truthy :: "json \<Rightarrow> bool" where
  "truthy JNull = False"
| "truthy (JBool b) = b"
| "truthy (JNum n) = (n \<noteq> 0)"
| "truthy (JStr s) = (s \<noteq> [])"
| "truthy (JArr xs) = (xs \<noteq> [])"
| "truthy (JObj kvs) = (kvs \<noteq> [])"

text \<open>\<^verbatim>\<open>a or b\<close>: the left operand when it is true, the right operand otherwise.\<close>

definition py_or :: "json \<Rightarrow> json \<Rightarrow> json" where
  "py_or a b = (if truthy a then a else b)"

subsection \<open>Strings\<close>

text \<open>\<^verbatim>\<open>str.upper()\<close> on the ASCII letters; every other character is left as it is.\<close>

definition upper_char :: "char \<Rightarrow> char" where
  "upper_char c =
     (case map_of (zip ''abcdefghijklmnopqrstuvwxyz'' ''ABCDEFGHIJKLMNOPQRSTUVWXYZ'') c of
        Some u \<Rightarrow> u
      | None \<Rightarrow> c)"

definition upper :: "string \<Rightarrow> string" where
  "upper s = map upper_char s"

text \<open>\<^verbatim>\<open>s.lstrip('/')\<close> and \<^verbatim>\<open>s.rstrip('/')\<close>.\<close>

definition lstrip_slash :: "string \<Rightarrow> string" where
  "lstrip_slash s = dropWhile (\<lambda>c. c = CHR ''/'') s"

definition rstrip_slash :: "string \<Rightarrow> string" where
  "rstrip_slash s = rev (dropWhile (\<lambda>c. c = CHR ''/'') (rev s))"

text \<open>\<^verbatim>\<open>str(n)\<close> of a non-negative integer: its decimal digits.\<close>

fun str_nat :: "nat \<Rightarrow> string" where
  "str_nat n =
     (if n < 10 then [''0123456789'' ! n]
      else str_nat (n div 10) @ [''0123456789'' ! (n mod 10)])"

section \<open>Exceptions\<close>

text \<open>
  The exceptions a request can meet. \<open>HTTPException\<close> and \<open>RequestValidationError\<close> are
  FastAPI's, \<open>RuntimeError\<close> is the builtin the client raises, \<open>Timeout\<close> is
  \<^verbatim>\<open>requests.exceptions.Timeout\<close> (an \<^verbatim>\<open>OSError\<close>), \<open>JSONDecodeError\<close> is what
  \<^verbatim>\<open>resp.json()\<close> raises on a body that is not JSON (a \<^verbatim>\<open>ValueError\<close>), and
  \<open>ValidationError\<close> is pydantic's (a \<^verbatim>\<open>ValueError\<close>), tagged with the model it rejects.
  None of the last three is a subclass of \<^verbatim>\<open>RuntimeError\<close>.
\<close>

datatype exn =
    HTTPException nat string
  | RuntimeError string
  | Timeout
  | JSONDecodeError
  | ValidationError string
  | RequestValidationError "string list"

section \<open>The provider as an HTTP data source\<close>

datatype param = PStr string | PInt int

record request =
  url :: string
  params :: "string \<rightharpoonup> param"
  timeout :: nat

text \<open>
  What \<^verbatim>\<open>requests.get\<close> hands back: the status, the body as text, and the value of
  \<^verbatim>\<open>resp.json()\<close> (\<open>None\<close> when the body does not parse). The parsed body has the
  client's declared return type, a list of records.
\<close>

record Response =
  status_code :: nat
  body_text :: string
  json_body :: "raw_record list option"

text \<open>A call either completes with a response or runs past the wait bound it was given.\<close>

datatype outcome = Responded Response | TimedOut

type_synonym upstream = "request \<Rightarrow> outcome"

text \<open>\<^verbatim>\<open>Response.ok\<close>: false exactly for the client-error and server-error statuses.\<close>

definition ok :: "Response \<Rightarrow> bool" where
  "ok resp = (\<not> (400 \<le> status_code resp \<and> status_code resp < 600))"

section \<open>Effects: the calls issued so far\<close>

text \<open>
  A computation takes the list of requests issued so far and returns its result, or the
  exception it raised, with the extended list.
\<close>

type_synonym 'a io = "request list \<Rightarrow> (exn + 'a) \<times> request list"


definition raise_io :: "exn \<Rightarrow> 'a io" where
  "raise_io e tr = (Inl e, tr)"

definition lift_io :: "exn + 'a \<Rightarrow> 'a io" where
  "lift_io r tr = (r, tr)"

definition bind_io :: "'a io \<Rightarrow> ('a \<Rightarrow> 'b io) \<Rightarrow> 'b io" where
  "bind_io m f tr =
     (case m tr of
        (Inl e, tr') \<Rightarrow> (Inl e, tr')
      | (Inr v, tr') \<Rightarrow> f v tr')"

section \<open>fmp\_client.py\<close>

record FMPClient =
  api_key :: string
  base_url :: string

definition FMPClient_init :: "string \<Rightarrow> string \<Rightarrow> FMPClient" where
  "FMPClient_init key base = \<lparr>api_key = key, base_url = rstrip_slash base\<rparr>"

text \<open>The request \<^verbatim>\<open>_get\<close> builds: the credential added to the parameters, a wait bound of 10.\<close>

definition build_request :: "FMPClient \<Rightarrow> string \<Rightarrow> (string \<rightharpoonup> param) \<Rightarrow> request" where
  "build_request self endpoint ps =
     \<lparr>url = base_url self @ ''/'' @ lstrip_slash endpoint,
      params = ps(''apikey'' \<mapsto> PStr (api_key self)),
      timeout = 10\<rparr>"

definition error_message :: "Response \<Rightarrow> string" where
  "error_message resp =
     ''FMP API error: '' @ str_nat (status_code resp) @ '' '' @ take 200 (body_text resp)"

definition FMPClient_get ::
    "FMPClient \<Rightarrow> upstream \<Rightarrow> string \<Rightarrow> (string \<rightharpoonup> param) \<Rightarrow> raw_record list io" where
  "FMPClient_get self up endpoint ps tr =
     (let req = build_request self endpoint ps;
          tr' = tr @ [req]
      in case up req of
           TimedOut \<Rightarrow> (Inl Timeout, tr')
         | Responded resp \<Rightarrow>
             if \<not> ok resp then (Inl (RuntimeError (error_message resp)), tr')
             else (case json_body resp of
                     None \<Rightarrow> (Inl JSONDecodeError, tr')
                   | Some rows \<Rightarrow> (Inr rows, tr')))"


definition get_company_profile :: "FMPClient \<Rightarrow> upstream \<Rightarrow> string \<Rightarrow> raw_record list io" where
  "get_company_profile self up symbol =
     FMPClient_get self up ''profile'' [''symbol'' \<mapsto> PStr (upper symbol)]"

definition get_income_statement ::
    "FMPClient \<Rightarrow> upstream \<Rightarrow> string \<Rightarrow> string \<Rightarrow> int \<Rightarrow> raw_record list io" where
  "get_income_statement self up symbol period limit =
     FMPClient_get self up ''income-statement''
       [''symbol'' \<mapsto> PStr (upper symbol), ''period'' \<mapsto> PStr period, ''limit'' \<mapsto> PInt limit]"

definition get_balance_sheet ::
    "FMPClient \<Rightarrow> upstream \<Rightarrow> string \<Rightarrow> string \<Rightarrow> int \<Rightarrow> raw_record list io" where
  "get_balance_sheet self up symbol period limit =
     FMPClient_get self up ''balance-sheet-statement''
       [''symbol'' \<mapsto> PStr (upper symbol), ''period'' \<mapsto> PStr period, ''limit'' \<mapsto> PInt limit]"

definition get_cash_flow ::
    "FMPClient \<Rightarrow> upstream \<Rightarrow> string \<Rightarrow> string \<Rightarrow> int \<Rightarrow> raw_record list io" where
  "get_cash_flow self up symbol period limit =
     FMPClient_get self up ''cash-flow-statement''
       [''symbol'' \<mapsto> PStr (upper symbol), ''period'' \<mapsto> PStr period, ''limit'' \<mapsto> PInt limit]"

section \<open>schemas.py\<close>

text \<open>
  Building a pydantic model validates every field. What is fixed by the field types:
  \<^verbatim>\<open>None\<close> is accepted by an \<^verbatim>\<open>Optional\<close> field and rejected by a \<^verbatim>\<open>str\<close> field, a string is
  accepted unchanged by a string field, a number by a float field. Whether any other
  value is converted or rejected depends on pydantic's conversion table, which is a
  parameter here: \<open>lax_str\<close> and \<open>lax_float\<close> give the converted value, \<open>None\<close> to reject.
\<close>

record pydantic =
  lax_str :: "json \<Rightarrow> string option"
  lax_float :: "json \<Rightarrow> rat option"

definition validate_str :: "pydantic \<Rightarrow> json \<Rightarrow> string option" where
  "validate_str pyd v =
     (case v of JStr s \<Rightarrow> Some s | JNull \<Rightarrow> None | _ \<Rightarrow> lax_str pyd v)"

definition validate_opt_str :: "pydantic \<Rightarrow> json \<Rightarrow> string option option" where
  "validate_opt_str pyd v =
     (case v of JNull \<Rightarrow> Some None | _ \<Rightarrow> map_option Some (validate_str pyd v))"

definition validate_opt_float :: "pydantic \<Rightarrow> json \<Rightarrow> rat option option" where
  "validate_opt_float pyd v =
     (case v of
        JNull \<Rightarrow> Some None
      | JNum n \<Rightarrow> Some (Some n)
      | _ \<Rightarrow> map_option Some (lax_float pyd v))"

record CompanySearchItem =
  symbol :: string
  name :: string
  exchange :: "string option"
  currency :: "string option"


record IncomeSnapshot =
  revenue :: "rat option"
  netIncome :: "rat option"

record BalanceSheetSnapshot =
  totalAssets :: "rat option"
  totalLiabilities :: "rat option"

record CashFlowSnapshot =
  operatingCashFlow :: "rat option"

record CompanySnapshot =
  symbol :: string
  name :: "string option"
  currency :: "string option"
  exchange :: "string option"
  asOf :: "string option"
  income :: IncomeSnapshot
  balanceSheet :: BalanceSheetSnapshot
  cashFlow :: CashFlowSnapshot

record HistoryPoint =
  date :: string
  revenue :: "rat option"
  netIncome :: "rat option"

record CompanyHistoryResponse =
  symbol :: string
  points :: "HistoryPoint list"


definition new_IncomeSnapshot :: "pydantic \<Rightarrow> json \<Rightarrow> json \<Rightarrow> exn + IncomeSnapshot" where
  "new_IncomeSnapshot pyd v_revenue v_netIncome =
     (case (validate_opt_float pyd v_revenue, validate_opt_float pyd v_netIncome) of
        (Some r, Some n) \<Rightarrow> Inr \<lparr>IncomeSnapshot.revenue = r, netIncome = n\<rparr>
      | _ \<Rightarrow> Inl (ValidationError ''IncomeSnapshot''))"

definition new_BalanceSheetSnapshot ::
    "pydantic \<Rightarrow> json \<Rightarrow> json \<Rightarrow> exn + BalanceSheetSnapshot" where
  "new_BalanceSheetSnapshot pyd v_totalAssets v_totalLiabilities =
     (case (validate_opt_float pyd v_totalAssets,
            validate_opt_float pyd v_totalLiabilities) of
        (Some a, Some l) \<Rightarrow> Inr \<lparr>totalAssets = a, totalLiabilities = l\<rparr>
      | _ \<Rightarrow> Inl (ValidationError ''BalanceSheetSnapshot''))"

definition new_CashFlowSnapshot :: "pydantic \<Rightarrow> json \<Rightarrow> exn + CashFlowSnapshot" where
  "new_CashFlowSnapshot pyd v_operatingCashFlow =
     (case validate_opt_float pyd v_operatingCashFlow of
        Some c \<Rightarrow> Inr \<lparr>operatingCashFlow = c\<rparr>
      | None \<Rightarrow> Inl (ValidationError ''CashFlowSnapshot''))"

definition new_CompanySnapshot ::
    "pydantic \<Rightarrow> json \<Rightarrow> json \<Rightarrow> json \<Rightarrow> json \<Rightarrow> json \<Rightarrow>
     IncomeSnapshot \<Rightarrow> BalanceSheetSnapshot \<Rightarrow> CashFlowSnapshot \<Rightarrow> exn + CompanySnapshot" where
  "new_CompanySnapshot pyd v_symbol v_name v_currency v_exchange v_asOf inc bal cf =
     (case (validate_str pyd v_symbol, validate_opt_str pyd v_name,
            validate_opt_str pyd v_currency, validate_opt_str pyd v_exchange,
            validate_opt_str pyd v_asOf) of
        (Some s, Some n, Some c, Some e, Some d) \<Rightarrow>
          Inr \<lparr>CompanySnapshot.symbol = s, name = n, currency = c, exchange = e, asOf = d,
               income = inc, balanceSheet = bal, cashFlow = cf\<rparr>
      | _ \<Rightarrow> Inl (ValidationError ''CompanySnapshot''))"


section \<open>main.py\<close>

text \<open>
  The module-level configuration read from the environment, and \<^verbatim>\<open>get_client\<close>, which
  builds the client from it.
\<close>

record env =
  FMP_API_KEY :: string
  FMP_BASE_URL :: string

definition get_client :: "env \<Rightarrow> FMPClient" where
  "get_client e = FMPClient_init (FMP_API_KEY e) (FMP_BASE_URL e)"

subsection \<open>search\_companies\<close>



subsection \<open>company\_snapshot\<close>

text \<open>\<^verbatim>\<open>xs[0] if xs else {}\<close>\<close>

definition first_or_empty :: "raw_record list \<Rightarrow> raw_record" where
  "first_or_empty xs = (case xs of [] \<Rightarrow> Map.empty | x # _ \<Rightarrow> x)"

definition company_snapshot ::
    "pydantic \<Rightarrow> upstream \<Rightarrow> string \<Rightarrow> FMPClient \<Rightarrow> CompanySnapshot io" where
  "company_snapshot pyd up symb client =
     bind_io (get_company_profile client up symb) (\<lambda>profiles.
     case profiles of
       [] \<Rightarrow> raise_io (HTTPException 404 ''Company profile not found'')
     | profile # _ \<Rightarrow>
         let v_name = py_or (dict_get profile ''companyName'') (dict_get profile ''name'');
             v_currency = dict_get profile ''currency'';
             v_exchange = py_or (dict_get profile ''exchangeShortName'')
                                (dict_get profile ''exchange'')
         in
         bind_io (get_income_statement client up symb ''annual'' 1) (\<lambda>income_list.
         bind_io (get_balance_sheet client up symb ''annual'' 1) (\<lambda>balance_list.
         bind_io (get_cash_flow client up symb ''annual'' 1) (\<lambda>cashflow_list.
         let income_raw = first_or_empty income_list;
             balance_raw = first_or_empty balance_list;
             cashflow_raw = first_or_empty cashflow_list;
             as_of = py_or (dict_get income_raw ''date'')
                       (py_or (dict_get balance_raw ''date'') (dict_get cashflow_raw ''date''))
         in
         bind_io (lift_io (new_IncomeSnapshot pyd
                    (py_or (dict_get income_raw ''revenue'') (dict_get income_raw ''revenueTTM''))
                    (py_or (dict_get income_raw ''netIncome'')
                           (dict_get income_raw ''netIncomeTTM'')))) (\<lambda>inc.
         bind_io (lift_io (new_BalanceSheetSnapshot pyd
                    (dict_get balance_raw ''totalAssets'')
                    (dict_get balance_raw ''totalLiabilities''))) (\<lambda>bal.
         bind_io (lift_io (new_CashFlowSnapshot pyd
                    (py_or (dict_get cashflow_raw ''operatingCashFlow'')
                           (dict_get cashflow_raw ''operatingCashFlowTTM'')))) (\<lambda>cf.
         lift_io (new_CompanySnapshot pyd (JStr (upper symb)) v_name v_currency v_exchange
                    as_of inc bal cf))))))))"

subsection \<open>company\_history\<close>



subsection \<open>The application: routes and exception handlers\<close>

datatype 'a content =
    Model 'a
  | Detail string
  | ValidationDetail "string list"
  | PlainText string

record 'a JSONResponse =
  status_code :: nat
  content :: "'a content"

text \<open>The handler registered for \<^verbatim>\<open>RuntimeError\<close>; \<^verbatim>\<open>str(exc)\<close> is the message.\<close>

definition runtime_error_handler :: "string \<Rightarrow> 'a JSONResponse" where
  "runtime_error_handler msg = \<lparr>status_code = 502, content = Detail msg\<rparr>"

text \<open>
  How the framework answers an exception: its own handlers for \<open>HTTPException\<close> and
  \<open>RequestValidationError\<close>, the registered handler for \<open>RuntimeError\<close>, and
  500 Internal Server Error for an exception no handler matches.
\<close>

fun handle_exception :: "exn \<Rightarrow> 'a JSONResponse" where
  "handle_exception (HTTPException code detail) = \<lparr>status_code = code, content = Detail detail\<rparr>"
| "handle_exception (RequestValidationError errs) =
     \<lparr>status_code = 422, content = ValidationDetail errs\<rparr>"
| "handle_exception (RuntimeError msg) = runtime_error_handler msg"
| "handle_exception _ = \<lparr>status_code = 500, content = PlainText ''Internal Server Error''\<rparr>"

definition respond :: "exn + 'a \<Rightarrow> 'a JSONResponse" where
  "respond r = (case r of Inl e \<Rightarrow> handle_exception e
                        | Inr v \<Rightarrow> \<lparr>status_code = 200, content = Model v\<rparr>)"


definition route_snapshot ::
    "pydantic \<Rightarrow> env \<Rightarrow> upstream \<Rightarrow> string \<Rightarrow> CompanySnapshot JSONResponse \<times> request list" where
  "route_snapshot pyd e up symb =
     (case company_snapshot pyd up symb (get_client e) [] of (r, tr) \<Rightarrow> (respond r, tr))"


section \<open>The requests each client operation issues\<close>

definition search_request :: "FMPClient \<Rightarrow> string \<Rightarrow> int \<Rightarrow> request" where
  "search_request self query limit =
     build_request self ''search-symbol''
       [''query'' \<mapsto> PStr query, ''limit'' \<mapsto> PInt limit,
        ''exchange'' \<mapsto> PStr ''NASDAQ,NYSE,AMEX'']"

definition profile_request :: "FMPClient \<Rightarrow> string \<Rightarrow> request" where
  "profile_request self symb =
     build_request self ''profile'' [''symbol'' \<mapsto> PStr (upper symb)]"

definition income_request :: "FMPClient \<Rightarrow> string \<Rightarrow> int \<Rightarrow> request" where
  "income_request self symb limit =
     build_request self ''income-statement''
       [''symbol'' \<mapsto> PStr (upper symb), ''period'' \<mapsto> PStr ''annual'', ''limit'' \<mapsto> PInt limit]"

definition balance_request :: "FMPClient \<Rightarrow> string \<Rightarrow> request" where
  "balance_request self symb =
     build_request self ''balance-sheet-statement''
       [''symbol'' \<mapsto> PStr (upper symb), ''period'' \<mapsto> PStr ''annual'', ''limit'' \<mapsto> PInt 1]"

definition cashflow_request :: "FMPClient \<Rightarrow> string \<Rightarrow> request" where
  "cashflow_request self symb =
     build_request self ''cash-flow-statement''
       [''symbol'' \<mapsto> PStr (upper symb), ''period'' \<mapsto> PStr ''annual'', ''limit'' \<mapsto> PInt 1]"

text \<open>A call that completes with an accepted status and a body that parses to \<open>rows\<close>.\<close>

definition returns_rows :: "upstream \<Rightarrow> request \<Rightarrow> raw_record list \<Rightarrow> bool" where
  "returns_rows up req rows =
     (case up req of
        Responded resp \<Rightarrow> ok resp \<and> json_body resp = Some rows
      | TimedOut \<Rightarrow> False)"

section \<open>Records as the provider documents them\<close>


fun is_str_or_null :: "json \<Rightarrow> bool" where
  "is_str_or_null (JStr s) = True"
| "is_str_or_null JNull = True"
| "is_str_or_null _ = False"

fun is_num_or_null :: "json \<Rightarrow> bool" where
  "is_num_or_null (JNum n) = True"
| "is_num_or_null JNull = True"
| "is_num_or_null _ = False"

text \<open>The string, or the number, a value holds; \<open>None\<close> for an absent value.\<close>

fun opt_str :: "json \<Rightarrow> string option" where
  "opt_str (JStr s) = Some s"
| "opt_str _ = None"

fun opt_num :: "json \<Rightarrow> rat option" where
  "opt_num (JNum n) = Some n"
| "opt_num _ = None"


definition profile_ok :: "raw_record \<Rightarrow> bool" where
  "profile_ok profile =
     (is_str_or_null (dict_get profile ''companyName'')
      \<and> is_str_or_null (dict_get profile ''name'')
      \<and> is_str_or_null (dict_get profile ''currency'')
      \<and> is_str_or_null (dict_get profile ''exchangeShortName'')
      \<and> is_str_or_null (dict_get profile ''exchange''))"

definition income_ok :: "raw_record \<Rightarrow> bool" where
  "income_ok r =
     (is_str_or_null (dict_get r ''date'')
      \<and> is_num_or_null (dict_get r ''revenue'')
      \<and> is_num_or_null (dict_get r ''revenueTTM'')
      \<and> is_num_or_null (dict_get r ''netIncome'')
      \<and> is_num_or_null (dict_get r ''netIncomeTTM''))"

definition balance_ok :: "raw_record \<Rightarrow> bool" where
  "balance_ok r =
     (is_str_or_null (dict_get r ''date'')
      \<and> is_num_or_null (dict_get r ''totalAssets'')
      \<and> is_num_or_null (dict_get r ''totalLiabilities''))"

definition cashflow_ok :: "raw_record \<Rightarrow> bool" where
  "cashflow_ok r =
     (is_str_or_null (dict_get r ''date'')
      \<and> is_num_or_null (dict_get r ''operatingCashFlow'')
      \<and> is_num_or_null (dict_get r ''operatingCashFlowTTM''))"



section \<open>The mappings in the words of the specification\<close>



section \<open>Reading the calls that were issued\<close>








section \<open>Fixtures\<close>

definition demo_env :: env where
  "demo_env = \<lparr>FMP_API_KEY = ''secret'', FMP_BASE_URL = ''https://fmp.test/stable/''\<rparr>"

text \<open>The conversion table that converts nothing.\<close>

definition strict :: pydantic where
  "strict = \<lparr>lax_str = (\<lambda>v. None), lax_float = (\<lambda>v. None)\<rparr>"

definition http_ok :: "raw_record list \<Rightarrow> outcome" where
  "http_ok rows =
     Responded \<lparr>Response.status_code = 200, body_text = ''[...]'', json_body = Some rows\<rparr>"


text \<open>Routing of a fixture by the last path segment of the request.\<close>

definition serve ::
    "outcome \<Rightarrow> outcome \<Rightarrow> outcome \<Rightarrow> outcome \<Rightarrow> outcome \<Rightarrow> upstream" where
  "serve search prof inc bal cf req =
     (if url req = ''https://fmp.test/stable/search-symbol'' then search
      else if url req = ''https://fmp.test/stable/profile'' then prof
      else if url req = ''https://fmp.test/stable/income-statement'' then inc
      else if url req = ''https://fmp.test/stable/balance-sheet-statement'' then bal
      else cf)"

definition apple_profile :: raw_record where
  "apple_profile =
     [''symbol'' \<mapsto> JStr ''AAPL'', ''companyName'' \<mapsto> JStr ''Apple Inc.'',
      ''name'' \<mapsto> JStr ''Apple'', ''currency'' \<mapsto> JStr ''USD'',
      ''exchangeShortName'' \<mapsto> JStr ''NASDAQ'', ''exchange'' \<mapsto> JStr ''NASDAQ Global Select'']"

definition apple_search_record :: raw_record where
  "apple_search_record =
     [''symbol'' \<mapsto> JStr ''AAPL'', ''companyName'' \<mapsto> JStr ''Apple Inc.'',
      ''stockExchange'' \<mapsto> JStr ''NASDAQ'', ''currency'' \<mapsto> JStr ''USD'']"

definition nameless_search_record :: raw_record where
  "nameless_search_record = [''symbol'' \<mapsto> JStr ''AAPL'', ''currency'' \<mapsto> JStr ''USD'']"

definition income_2023 :: raw_record where
  "income_2023 =
     [''date'' \<mapsto> JStr ''2023-12-31'', ''revenue'' \<mapsto> JNum 383, ''netIncome'' \<mapsto> JNum 97]"

definition balance_2023 :: raw_record where
  "balance_2023 =
     [''date'' \<mapsto> JStr ''2023-12-30'', ''totalAssets'' \<mapsto> JNum 352,
      ''totalLiabilities'' \<mapsto> JNum 290]"

definition cashflow_2023 :: raw_record where
  "cashflow_2023 = [''date'' \<mapsto> JStr ''2023-12-29'', ''operatingCashFlow'' \<mapsto> JNum 110]"

definition income_undated :: raw_record where
  "income_undated = [''revenue'' \<mapsto> JNum 383, ''netIncome'' \<mapsto> JNum 97]"

text \<open>Three history rows, the middle one with trailing-twelve-months fields only.\<close>

definition history_rows :: "raw_record list" where
  "history_rows =
     [[''date'' \<mapsto> JStr ''2023-12-31'', ''revenue'' \<mapsto> JNum 383, ''netIncome'' \<mapsto> JNum 97],
      [''date'' \<mapsto> JStr ''2022-12-31'', ''revenueTTM'' \<mapsto> JNum 394,
       ''netIncomeTTM'' \<mapsto> JNum 99],
      [''date'' \<mapsto> JStr ''2021-12-31'', ''revenue'' \<mapsto> JNum 365, ''netIncome'' \<mapsto> JNum 94,
       ''revenueTTM'' \<mapsto> JNum 1]]"

text \<open>The provider answering for Apple: in full, with an undated income statement, and
  with no statements at all.\<close>

definition apple_upstream :: upstream where
  "apple_upstream =
     serve (http_ok [apple_search_record]) (http_ok [apple_profile]) (http_ok [income_2023])
       (http_ok [balance_2023]) (http_ok [cashflow_2023])"

definition apple_upstream_undated :: upstream where
  "apple_upstream_undated =
     serve (http_ok [apple_search_record]) (http_ok [apple_profile]) (http_ok [income_undated])
       (http_ok [balance_2023]) (http_ok [cashflow_2023])"

definition apple_upstream_bare :: upstream where
  "apple_upstream_bare =
     serve (http_ok [apple_search_record]) (http_ok [apple_profile]) (http_ok [])
       (http_ok []) (http_ok [])"

definition apple_snapshot :: CompanySnapshot where
  "apple_snapshot =
     \<lparr>CompanySnapshot.symbol = ''AAPL'', name = Some ''Apple Inc.'', currency = Some ''USD'',
      exchange = Some ''NASDAQ'', asOf = Some ''2023-12-31'',
      income = \<lparr>IncomeSnapshot.revenue = Some 383, netIncome = Some 97\<rparr>,
      balanceSheet = \<lparr>totalAssets = Some 352, totalLiabilities = Some 290\<rparr>,
      cashFlow = \<lparr>operatingCashFlow = Some 110\<rparr>\<rparr>"






section \<open>Basic facts\<close>


subsection \<open>Validators on well-typed values\<close>

lemma validate_opt_str_ok: "is_str_or_null v \<Longrightarrow> validate_opt_str pyd v = Some (opt_str v)"
  by (cases v) (simp_all add: validate_opt_str_def validate_str_def)

lemma validate_opt_float_ok: "is_num_or_null v \<Longrightarrow> validate_opt_float pyd v = Some (opt_num v)"
  by (cases v) (simp_all add: validate_opt_float_def)

lemma validate_str_JStr [simp]: "validate_str pyd (JStr s) = Some s"
  by (simp add: validate_str_def)

lemma validate_str_JNull [simp]: "validate_str pyd JNull = None"
  by (simp add: validate_str_def)

lemma validate_opt_str_JStr [simp]: "validate_opt_str pyd (JStr s) = Some (Some s)"
  by (simp add: validate_opt_str_def)

lemma validate_opt_str_JNull [simp]: "validate_opt_str pyd JNull = Some None"
  by (simp add: validate_opt_str_def)

lemma validate_opt_float_JNull [simp]: "validate_opt_float pyd JNull = Some None"
  by (simp add: validate_opt_float_def)

lemma validate_opt_float_JNum [simp]: "validate_opt_float pyd (JNum n) = Some (Some n)"
  by (simp add: validate_opt_float_def)

lemma py_or_str_or_null:
  "is_str_or_null a \<Longrightarrow> is_str_or_null b \<Longrightarrow> is_str_or_null (py_or a b)"
  by (simp add: py_or_def)

lemma py_or_num_or_null:
  "is_num_or_null a \<Longrightarrow> is_num_or_null b \<Longrightarrow> is_num_or_null (py_or a b)"
  by (simp add: py_or_def)

lemma dict_get_empty [simp]: "dict_get Map.empty k = JNull"
  by (simp add: dict_get_def)

lemma py_or_JNull [simp]: "py_or JNull b = b"
  by (simp add: py_or_def)

subsection \<open>The client\<close>

lemma FMPClient_get_rows:
  "returns_rows up (build_request self ep ps) rows \<Longrightarrow>
   FMPClient_get self up ep ps tr = (Inr rows, tr @ [build_request self ep ps])"
  by (auto simp: FMPClient_get_def returns_rows_def Let_def split: outcome.splits)

lemma FMPClient_get_Inr:
  "FMPClient_get self up ep ps tr = (Inr rows, tr') \<Longrightarrow>
   returns_rows up (build_request self ep ps) rows \<and> tr' = tr @ [build_request self ep ps]"
  by (auto simp: FMPClient_get_def returns_rows_def Let_def
           split: outcome.splits if_splits option.splits)




lemma get_company_profile_rows:
  "returns_rows up (profile_request self symb) rows \<Longrightarrow>
   get_company_profile self up symb tr = (Inr rows, tr @ [profile_request self symb])"
  unfolding get_company_profile_def profile_request_def by (rule FMPClient_get_rows)

lemma get_income_statement_rows:
  "returns_rows up (income_request self symb n) rows \<Longrightarrow>
   get_income_statement self up symb ''annual'' n tr =
     (Inr rows, tr @ [income_request self symb n])"
  unfolding get_income_statement_def income_request_def by (rule FMPClient_get_rows)

lemma get_balance_sheet_rows:
  "returns_rows up (balance_request self symb) rows \<Longrightarrow>
   get_balance_sheet self up symb ''annual'' 1 tr = (Inr rows, tr @ [balance_request self symb])"
  unfolding get_balance_sheet_def balance_request_def by (rule FMPClient_get_rows)

lemma get_cash_flow_rows:
  "returns_rows up (cashflow_request self symb) rows \<Longrightarrow>
   get_cash_flow self up symb ''annual'' 1 tr = (Inr rows, tr @ [cashflow_request self symb])"
  unfolding get_cash_flow_def cashflow_request_def by (rule FMPClient_get_rows)


lemma request_urls:
  "url (profile_request c s) = base_url c @ ''/profile''"
  "url (income_request c s n) = base_url c @ ''/income-statement''"
  "url (balance_request c s) = base_url c @ ''/balance-sheet-statement''"
  "url (cashflow_request c s) = base_url c @ ''/cash-flow-statement''"
  "url (search_request c q n) = base_url c @ ''/search-symbol''"
  by (simp_all add: profile_request_def income_request_def balance_request_def
        cashflow_request_def search_request_def build_request_def lstrip_slash_def)

lemma statement_requests_differ:
  "income_request c s n \<noteq> profile_request c s"
  "balance_request c s \<noteq> profile_request c s"
  "cashflow_request c s \<noteq> profile_request c s"
proof -
  have "url (income_request c s n) \<noteq> url (profile_request c s)"
       "url (balance_request c s) \<noteq> url (profile_request c s)"
       "url (cashflow_request c s) \<noteq> url (profile_request c s)"
    by (simp_all add: request_urls)
  then show "income_request c s n \<noteq> profile_request c s"
       "balance_request c s \<noteq> profile_request c s"
       "cashflow_request c s \<noteq> profile_request c s"
    by auto
qed

lemma demo_client: "get_client demo_env = \<lparr>api_key = ''secret'', base_url = ''https://fmp.test/stable''\<rparr>"
  by (simp add: get_client_def demo_env_def FMPClient_init_def rstrip_slash_def)

lemma demo_urls:
  "url (profile_request (get_client demo_env) s) = ''https://fmp.test/stable/profile''"
  "url (income_request (get_client demo_env) s n) = ''https://fmp.test/stable/income-statement''"
  "url (balance_request (get_client demo_env) s) = ''https://fmp.test/stable/balance-sheet-statement''"
  "url (cashflow_request (get_client demo_env) s) = ''https://fmp.test/stable/cash-flow-statement''"
  "url (search_request (get_client demo_env) q n) = ''https://fmp.test/stable/search-symbol''"
  by (simp_all add: request_urls demo_client)

lemma returns_rows_http_ok: "up req = http_ok rows \<Longrightarrow> returns_rows up req rows"
  by (simp add: returns_rows_def http_ok_def ok_def)

section \<open>The snapshot of an unknown symbol\<close>

text \<open>
  C1. When the profile call of a snapshot request returns an empty list, the response is
  404 (company profile not found), and the profile request is the only upstream call
  issued: no income-statement, balance-sheet or cash-flow call is made.
\<close>

theorem snapshot_profile_empty_not_found:
  assumes "returns_rows up (profile_request (get_client e) symb) []"
  shows "route_snapshot pyd e up symb =
           (\<lparr>status_code = 404, content = Detail ''Company profile not found''\<rparr>,
            [profile_request (get_client e) symb])
         \<and> income_request (get_client e) symb 1 \<notin> set (snd (route_snapshot pyd e up symb))
         \<and> balance_request (get_client e) symb \<notin> set (snd (route_snapshot pyd e up symb))
         \<and> cashflow_request (get_client e) symb \<notin> set (snd (route_snapshot pyd e up symb))"
proof -
  have "route_snapshot pyd e up symb =
           (\<lparr>status_code = 404, content = Detail ''Company profile not found''\<rparr>,
            [profile_request (get_client e) symb])"
    by (simp add: route_snapshot_def company_snapshot_def bind_io_def raise_io_def respond_def
          get_company_profile_rows [OF assms])
  then show ?thesis
    by (simp add: statement_requests_differ)
qed

theorem snapshot_profile_empty_not_found_witness:
  "returns_rows (serve TimedOut (http_ok []) TimedOut TimedOut TimedOut)
     (profile_request (get_client demo_env) ''zzzz'') []
   \<and> route_snapshot strict demo_env (serve TimedOut (http_ok []) TimedOut TimedOut TimedOut)
        ''zzzz'' =
       (\<lparr>status_code = 404, content = Detail ''Company profile not found''\<rparr>,
        [profile_request (get_client demo_env) ''zzzz''])"
proof -
  have h: "returns_rows (serve TimedOut (http_ok []) TimedOut TimedOut TimedOut)
     (profile_request (get_client demo_env) ''zzzz'') []"
    by (rule returns_rows_http_ok) (simp add: serve_def demo_urls)
  from snapshot_profile_empty_not_found [OF h, of strict] h show ?thesis by simp
qed


lemma get_company_profile_Inr:
  "get_company_profile self up symb tr = (Inr rows, tr') \<Longrightarrow>
   returns_rows up (profile_request self symb) rows \<and> tr' = tr @ [profile_request self symb]"
  unfolding get_company_profile_def profile_request_def by (rule FMPClient_get_Inr)

lemma get_income_statement_Inr:
  "get_income_statement self up symb ''annual'' n tr = (Inr rows, tr') \<Longrightarrow>
   returns_rows up (income_request self symb n) rows \<and> tr' = tr @ [income_request self symb n]"
  unfolding get_income_statement_def income_request_def by (rule FMPClient_get_Inr)

lemma get_balance_sheet_Inr:
  "get_balance_sheet self up symb ''annual'' 1 tr = (Inr rows, tr') \<Longrightarrow>
   returns_rows up (balance_request self symb) rows \<and> tr' = tr @ [balance_request self symb]"
  unfolding get_balance_sheet_def balance_request_def by (rule FMPClient_get_Inr)

lemma get_cash_flow_Inr:
  "get_cash_flow self up symb ''annual'' 1 tr = (Inr rows, tr') \<Longrightarrow>
   returns_rows up (cashflow_request self symb) rows \<and> tr' = tr @ [cashflow_request self symb]"
  unfolding get_cash_flow_def cashflow_request_def by (rule FMPClient_get_Inr)

text \<open>What a snapshot that is returned was built from.\<close>

lemma company_snapshot_Inr:
  assumes "company_snapshot pyd up symb c tr = (Inr snap, tr')"
  shows "\<exists>profile rest il bl cl inc bal cf.
           returns_rows up (profile_request c symb) (profile # rest)
         \<and> returns_rows up (income_request c symb 1) il
         \<and> returns_rows up (balance_request c symb) bl
         \<and> returns_rows up (cashflow_request c symb) cl
         \<and> new_CompanySnapshot pyd (JStr (upper symb))
              (py_or (dict_get profile ''companyName'') (dict_get profile ''name''))
              (dict_get profile ''currency'')
              (py_or (dict_get profile ''exchangeShortName'') (dict_get profile ''exchange''))
              (py_or (dict_get (first_or_empty il) ''date'')
                 (py_or (dict_get (first_or_empty bl) ''date'')
                        (dict_get (first_or_empty cl) ''date'')))
              inc bal cf = Inr snap
         \<and> new_IncomeSnapshot pyd
              (py_or (dict_get (first_or_empty il) ''revenue'')
                     (dict_get (first_or_empty il) ''revenueTTM''))
              (py_or (dict_get (first_or_empty il) ''netIncome'')
                     (dict_get (first_or_empty il) ''netIncomeTTM'')) = Inr inc
         \<and> new_BalanceSheetSnapshot pyd
              (dict_get (first_or_empty bl) ''totalAssets'')
              (dict_get (first_or_empty bl) ''totalLiabilities'') = Inr bal
         \<and> new_CashFlowSnapshot pyd
              (py_or (dict_get (first_or_empty cl) ''operatingCashFlow'')
                     (dict_get (first_or_empty cl) ''operatingCashFlowTTM'')) = Inr cf"
  using assms unfolding company_snapshot_def bind_io_def lift_io_def raise_io_def Let_def
  apply (auto split: prod.splits sum.splits list.splits
           dest!: get_company_profile_Inr get_income_statement_Inr get_balance_sheet_Inr
                  get_cash_flow_Inr)
  apply blast
  done


lemma returns_rows_unique:
  "returns_rows up req rows \<Longrightarrow> returns_rows up req rows' \<Longrightarrow> rows' = rows"
  by (auto simp: returns_rows_def split: outcome.splits)

lemma respond_Model:
  "respond r = \<lparr>status_code = code, content = Model v\<rparr> \<Longrightarrow> r = Inr v \<and> code = 200"
proof (cases r)
  case (Inl ex)
  assume "respond r = \<lparr>status_code = code, content = Model v\<rparr>"
  with Inl show ?thesis
    by (cases ex) (simp_all add: respond_def runtime_error_handler_def)
next
  case (Inr x)
  assume "respond r = \<lparr>status_code = code, content = Model v\<rparr>"
  with Inr show ?thesis by (simp add: respond_def)
qed

lemma route_snapshot_Model:
  assumes "fst (route_snapshot pyd e up symb) = \<lparr>status_code = code, content = Model snap\<rparr>"
  shows "\<exists>tr'. company_snapshot pyd up symb (get_client e) [] = (Inr snap, tr')"
proof -
  obtain r tr' where r: "company_snapshot pyd up symb (get_client e) [] = (r, tr')"
    by (cases "company_snapshot pyd up symb (get_client e) []")
  with assms have "respond r = \<lparr>status_code = code, content = Model snap\<rparr>"
    by (simp add: route_snapshot_def)
  from respond_Model [OF this] r show ?thesis by simp
qed

lemma new_CompanySnapshot_Inr:
  "new_CompanySnapshot pyd vs vn vc ve vd inc bal cf = Inr snap \<Longrightarrow>
   validate_str pyd vs = Some (CompanySnapshot.symbol snap)
   \<and> validate_opt_str pyd vn = Some (CompanySnapshot.name snap)
   \<and> validate_opt_str pyd vc = Some (CompanySnapshot.currency snap)
   \<and> validate_opt_str pyd ve = Some (CompanySnapshot.exchange snap)
   \<and> validate_opt_str pyd vd = Some (asOf snap)
   \<and> income snap = inc \<and> balanceSheet snap = bal \<and> cashFlow snap = cf"
  by (auto simp: new_CompanySnapshot_def split: option.splits)




lemma new_IncomeSnapshot_ok:
  "is_num_or_null a \<Longrightarrow> is_num_or_null b \<Longrightarrow>
   new_IncomeSnapshot pyd a b = Inr \<lparr>IncomeSnapshot.revenue = opt_num a, netIncome = opt_num b\<rparr>"
  by (simp add: new_IncomeSnapshot_def validate_opt_float_ok)

lemma new_BalanceSheetSnapshot_ok:
  "is_num_or_null a \<Longrightarrow> is_num_or_null b \<Longrightarrow>
   new_BalanceSheetSnapshot pyd a b = Inr \<lparr>totalAssets = opt_num a, totalLiabilities = opt_num b\<rparr>"
  by (simp add: new_BalanceSheetSnapshot_def validate_opt_float_ok)

lemma new_CashFlowSnapshot_ok:
  "is_num_or_null a \<Longrightarrow> new_CashFlowSnapshot pyd a = Inr \<lparr>operatingCashFlow = opt_num a\<rparr>"
  by (simp add: new_CashFlowSnapshot_def validate_opt_float_ok)

lemma new_CompanySnapshot_ok:
  "is_str_or_null n \<Longrightarrow> is_str_or_null c \<Longrightarrow> is_str_or_null x \<Longrightarrow> is_str_or_null d \<Longrightarrow>
   new_CompanySnapshot pyd (JStr s) n c x d inc bal cf =
     Inr \<lparr>CompanySnapshot.symbol = s, name = opt_str n, currency = opt_str c,
          exchange = opt_str x, asOf = opt_str d,
          income = inc, balanceSheet = bal, cashFlow = cf\<rparr>"
  by (simp add: new_CompanySnapshot_def validate_opt_str_ok)

lemma records_ok_empty:
  "income_ok Map.empty" "balance_ok Map.empty" "cashflow_ok Map.empty"
  by (simp_all add: income_ok_def balance_ok_def cashflow_ok_def)

text \<open>The snapshot of well-typed records, field by field.\<close>

lemma snapshot_well_typed:
  assumes p: "returns_rows up (profile_request (get_client e) symb) (profile # rest)"
      and i: "returns_rows up (income_request (get_client e) symb 1) il"
      and b: "returns_rows up (balance_request (get_client e) symb) bl"
      and c: "returns_rows up (cashflow_request (get_client e) symb) cl"
      and pk: "profile_ok profile"
      and ik: "income_ok (first_or_empty il)"
      and bk: "balance_ok (first_or_empty bl)"
      and ck: "cashflow_ok (first_or_empty cl)"
  shows "route_snapshot pyd e up symb =
    (\<lparr>status_code = 200, content = Model
       \<lparr>CompanySnapshot.symbol = upper symb,
        name = opt_str (py_or (dict_get profile ''companyName'') (dict_get profile ''name'')),
        currency = opt_str (dict_get profile ''currency''),
        exchange = opt_str (py_or (dict_get profile ''exchangeShortName'')
                                  (dict_get profile ''exchange'')),
        asOf = opt_str (py_or (dict_get (first_or_empty il) ''date'')
                         (py_or (dict_get (first_or_empty bl) ''date'')
                                (dict_get (first_or_empty cl) ''date''))),
        income = \<lparr>IncomeSnapshot.revenue =
                    opt_num (py_or (dict_get (first_or_empty il) ''revenue'')
                                   (dict_get (first_or_empty il) ''revenueTTM'')),
                  netIncome =
                    opt_num (py_or (dict_get (first_or_empty il) ''netIncome'')
                                   (dict_get (first_or_empty il) ''netIncomeTTM''))\<rparr>,
        balanceSheet = \<lparr>totalAssets = opt_num (dict_get (first_or_empty bl) ''totalAssets''),
                        totalLiabilities =
                          opt_num (dict_get (first_or_empty bl) ''totalLiabilities'')\<rparr>,
        cashFlow = \<lparr>operatingCashFlow =
                      opt_num (py_or (dict_get (first_or_empty cl) ''operatingCashFlow'')
                                     (dict_get (first_or_empty cl) ''operatingCashFlowTTM''))\<rparr>\<rparr>\<rparr>,
     [profile_request (get_client e) symb, income_request (get_client e) symb 1,
      balance_request (get_client e) symb, cashflow_request (get_client e) symb])"
proof -
  have inc: "new_IncomeSnapshot pyd
       (py_or (dict_get (first_or_empty il) ''revenue'') (dict_get (first_or_empty il) ''revenueTTM''))
       (py_or (dict_get (first_or_empty il) ''netIncome'') (dict_get (first_or_empty il) ''netIncomeTTM''))
     = Inr \<lparr>IncomeSnapshot.revenue =
                    opt_num (py_or (dict_get (first_or_empty il) ''revenue'')
                                   (dict_get (first_or_empty il) ''revenueTTM'')),
                  netIncome =
                    opt_num (py_or (dict_get (first_or_empty il) ''netIncome'')
                                   (dict_get (first_or_empty il) ''netIncomeTTM''))\<rparr>"
    using ik by (intro new_IncomeSnapshot_ok py_or_num_or_null) (simp_all add: income_ok_def)
  have bal: "new_BalanceSheetSnapshot pyd (dict_get (first_or_empty bl) ''totalAssets'')
       (dict_get (first_or_empty bl) ''totalLiabilities'')
     = Inr \<lparr>totalAssets = opt_num (dict_get (first_or_empty bl) ''totalAssets''),
            totalLiabilities = opt_num (dict_get (first_or_empty bl) ''totalLiabilities'')\<rparr>"
    using bk by (intro new_BalanceSheetSnapshot_ok) (simp_all add: balance_ok_def)
  have cf: "new_CashFlowSnapshot pyd
       (py_or (dict_get (first_or_empty cl) ''operatingCashFlow'')
              (dict_get (first_or_empty cl) ''operatingCashFlowTTM''))
     = Inr \<lparr>operatingCashFlow =
                      opt_num (py_or (dict_get (first_or_empty cl) ''operatingCashFlow'')
                                     (dict_get (first_or_empty cl) ''operatingCashFlowTTM''))\<rparr>"
    using ck by (intro new_CashFlowSnapshot_ok py_or_num_or_null) (simp_all add: cashflow_ok_def)
  have n: "is_str_or_null (py_or (dict_get profile ''companyName'') (dict_get profile ''name''))"
    and cu: "is_str_or_null (dict_get profile ''currency'')"
    and x: "is_str_or_null (py_or (dict_get profile ''exchangeShortName'')
                                  (dict_get profile ''exchange''))"
    using pk by (simp_all add: profile_ok_def py_or_str_or_null)
  have d: "is_str_or_null (py_or (dict_get (first_or_empty il) ''date'')
                         (py_or (dict_get (first_or_empty bl) ''date'')
                                (dict_get (first_or_empty cl) ''date'')))"
    using ik bk ck
    by (intro py_or_str_or_null) (simp_all add: income_ok_def balance_ok_def cashflow_ok_def)
  show ?thesis
    by (simp add: route_snapshot_def company_snapshot_def bind_io_def lift_io_def Let_def
          respond_def get_company_profile_rows [OF p] get_income_statement_rows [OF i]
          get_balance_sheet_rows [OF b] get_cash_flow_rows [OF c] inc bal cf
          new_CompanySnapshot_ok [OF n cu x d])
qed

lemma first_or_empty_Nil [simp]: "first_or_empty [] = Map.empty"
  by (simp add: first_or_empty_def)

lemma first_or_empty_Cons [simp]: "first_or_empty (x # xs) = x"
  by (simp add: first_or_empty_def)










subsection \<open>The fixtures evaluated\<close>

lemmas fixture_defs =
  apple_profile_def apple_search_record_def nameless_search_record_def income_2023_def
  balance_2023_def cashflow_2023_def income_undated_def history_rows_def

lemma apple_upstream_rows:
  "returns_rows apple_upstream (profile_request (get_client demo_env) s) [apple_profile]"
  "returns_rows apple_upstream (income_request (get_client demo_env) s n) [income_2023]"
  "returns_rows apple_upstream (balance_request (get_client demo_env) s) [balance_2023]"
  "returns_rows apple_upstream (cashflow_request (get_client demo_env) s) [cashflow_2023]"
  "returns_rows apple_upstream (search_request (get_client demo_env) q n) [apple_search_record]"
  by (rule returns_rows_http_ok, simp add: apple_upstream_def serve_def demo_urls)+

lemma apple_upstream_undated_rows:
  "returns_rows apple_upstream_undated (profile_request (get_client demo_env) s) [apple_profile]"
  "returns_rows apple_upstream_undated (income_request (get_client demo_env) s n) [income_undated]"
  "returns_rows apple_upstream_undated (balance_request (get_client demo_env) s) [balance_2023]"
  "returns_rows apple_upstream_undated (cashflow_request (get_client demo_env) s) [cashflow_2023]"
  by (rule returns_rows_http_ok, simp add: apple_upstream_undated_def serve_def demo_urls)+

lemma apple_upstream_bare_rows:
  "returns_rows apple_upstream_bare (profile_request (get_client demo_env) s) [apple_profile]"
  "returns_rows apple_upstream_bare (income_request (get_client demo_env) s n) []"
  "returns_rows apple_upstream_bare (balance_request (get_client demo_env) s) []"
  "returns_rows apple_upstream_bare (cashflow_request (get_client demo_env) s) []"
  by (rule returns_rows_http_ok, simp add: apple_upstream_bare_def serve_def demo_urls)+

lemma fixtures_ok:
  "profile_ok apple_profile" "income_ok income_2023" "income_ok income_undated"
  "balance_ok balance_2023" "cashflow_ok cashflow_2023"
  by (simp_all add: profile_ok_def income_ok_def balance_ok_def cashflow_ok_def dict_get_def
        fixture_defs)

lemma upper_aapl: "upper ''aapl'' = ''AAPL''"
  by (simp add: upper_def upper_char_def)

lemma apple_snapshot_response:
  "fst (route_snapshot strict demo_env apple_upstream ''aapl'') =
     \<lparr>status_code = 200, content = Model apple_snapshot\<rparr>"
proof -
  have "income_ok (first_or_empty [income_2023])" "balance_ok (first_or_empty [balance_2023])"
       "cashflow_ok (first_or_empty [cashflow_2023])"
    by (simp_all add: fixtures_ok)
  from snapshot_well_typed [where pyd = strict and symb = "''aapl''",
         OF apple_upstream_rows(1-4) fixtures_ok(1) this]
  show ?thesis
    by (simp add: upper_aapl apple_snapshot_def dict_get_def py_or_def fixture_defs)
qed

lemma apple_snapshot_undated_response:
  "fst (route_snapshot strict demo_env apple_upstream_undated ''aapl'') =
     \<lparr>status_code = 200, content = Model (apple_snapshot\<lparr>asOf := Some ''2023-12-30''\<rparr>)\<rparr>"
proof -
  have "income_ok (first_or_empty [income_undated])"
       "balance_ok (first_or_empty [balance_2023])"
       "cashflow_ok (first_or_empty [cashflow_2023])"
    by (simp_all add: fixtures_ok)
  from snapshot_well_typed [where pyd = strict and symb = "''aapl''",
         OF apple_upstream_undated_rows(1-4) fixtures_ok(1) this]
  show ?thesis
    by (simp add: upper_aapl apple_snapshot_def dict_get_def py_or_def fixture_defs)
qed

lemma apple_snapshot_bare_response:
  "fst (route_snapshot strict demo_env apple_upstream_bare ''aapl'') =
     \<lparr>status_code = 200, content = Model
        \<lparr>CompanySnapshot.symbol = ''AAPL'', name = Some ''Apple Inc.'', currency = Some ''USD'',
         exchange = Some ''NASDAQ'', asOf = None,
         income = \<lparr>IncomeSnapshot.revenue = None, netIncome = None\<rparr>,
         balanceSheet = \<lparr>totalAssets = None, totalLiabilities = None\<rparr>,
         cashFlow = \<lparr>operatingCashFlow = None\<rparr>\<rparr>\<rparr>"
proof -
  have "income_ok (first_or_empty [])" "balance_ok (first_or_empty [])"
       "cashflow_ok (first_or_empty [])"
    by (simp_all add: records_ok_empty)
  from snapshot_well_typed [where pyd = strict and symb = "''aapl''",
         OF apple_upstream_bare_rows(1-4) fixtures_ok(1) this]
  show ?thesis
    by (simp add: upper_aapl dict_get_def py_or_def fixture_defs)
qed


section \<open>The fields of a snapshot\<close>

lemma snapshot_built_from:
  assumes ok: "fst (route_snapshot pyd e up symb) = \<lparr>status_code = 200, content = Model snap\<rparr>"
  obtains profile rest il bl cl where
    "returns_rows up (profile_request (get_client e) symb) (profile # rest)"
    "returns_rows up (income_request (get_client e) symb 1) il"
    "returns_rows up (balance_request (get_client e) symb) bl"
    "returns_rows up (cashflow_request (get_client e) symb) cl"
    "validate_str pyd (JStr (upper symb)) = Some (CompanySnapshot.symbol snap)"
    "validate_opt_str pyd (py_or (dict_get profile ''companyName'') (dict_get profile ''name''))
       = Some (CompanySnapshot.name snap)"
    "validate_opt_str pyd (py_or (dict_get profile ''exchangeShortName'')
                                 (dict_get profile ''exchange''))
       = Some (CompanySnapshot.exchange snap)"
    "validate_opt_str pyd (py_or (dict_get (first_or_empty il) ''date'')
                 (py_or (dict_get (first_or_empty bl) ''date'')
                        (dict_get (first_or_empty cl) ''date'')))
       = Some (asOf snap)"
proof -
  from route_snapshot_Model [OF ok] obtain tr' where
    "company_snapshot pyd up symb (get_client e) [] = (Inr snap, tr')" by blast
  from company_snapshot_Inr [OF this] obtain profile rest il bl cl inc bal cf where
    rows: "returns_rows up (profile_request (get_client e) symb) (profile # rest)"
          "returns_rows up (income_request (get_client e) symb 1) il"
          "returns_rows up (balance_request (get_client e) symb) bl"
          "returns_rows up (cashflow_request (get_client e) symb) cl"
    and new: "new_CompanySnapshot pyd (JStr (upper symb))
              (py_or (dict_get profile ''companyName'') (dict_get profile ''name''))
              (dict_get profile ''currency'')
              (py_or (dict_get profile ''exchangeShortName'') (dict_get profile ''exchange''))
              (py_or (dict_get (first_or_empty il) ''date'')
                 (py_or (dict_get (first_or_empty bl) ''date'')
                        (dict_get (first_or_empty cl) ''date'')))
              inc bal cf = Inr snap"
    by blast
  from new_CompanySnapshot_Inr [OF new] rows that show thesis by blast
qed




lemma py_or_nonempty_str [simp]: "d \<noteq> [] \<Longrightarrow> py_or (JStr d) b = JStr d"
  by (simp add: py_or_def)

lemma py_or_empty_str [simp]: "py_or (JStr []) b = b"
  by (simp add: py_or_def)

text \<open>
  C3. In every successful snapshot response \<open>asOf\<close> is the first non-empty date among
  the income record, the balance-sheet record and the cash-flow record, in this order: the
  income date when it is a non-empty string; else, the income date being absent or empty,
  the balance-sheet date when that is a non-empty string; else the cash-flow date.
\<close>

theorem snapshot_asOf_priority:
  assumes i: "returns_rows up (income_request (get_client e) symb 1) il"
      and b: "returns_rows up (balance_request (get_client e) symb) bl"
      and c: "returns_rows up (cashflow_request (get_client e) symb) cl"
      and ok: "fst (route_snapshot pyd e up symb) = \<lparr>status_code = 200, content = Model snap\<rparr>"
  shows "(\<forall>d. dict_get (first_or_empty il) ''date'' = JStr d \<and> d \<noteq> []
              \<longrightarrow> asOf snap = Some d)
       \<and> (\<forall>d. (dict_get (first_or_empty il) ''date'' = JNull
               \<or> dict_get (first_or_empty il) ''date'' = JStr [])
              \<and> dict_get (first_or_empty bl) ''date'' = JStr d \<and> d \<noteq> []
              \<longrightarrow> asOf snap = Some d)
       \<and> (\<forall>d. (dict_get (first_or_empty il) ''date'' = JNull
               \<or> dict_get (first_or_empty il) ''date'' = JStr [])
              \<and> (dict_get (first_or_empty bl) ''date'' = JNull
               \<or> dict_get (first_or_empty bl) ''date'' = JStr [])
              \<and> dict_get (first_or_empty cl) ''date'' = JStr d \<and> d \<noteq> []
              \<longrightarrow> asOf snap = Some d)"
proof -
  from ok obtain il' bl' cl' where
    rows: "returns_rows up (income_request (get_client e) symb 1) il'"
          "returns_rows up (balance_request (get_client e) symb) bl'"
          "returns_rows up (cashflow_request (get_client e) symb) cl'"
    and v: "validate_opt_str pyd (py_or (dict_get (first_or_empty il') ''date'')
                 (py_or (dict_get (first_or_empty bl') ''date'')
                        (dict_get (first_or_empty cl') ''date'')))
       = Some (asOf snap)"
    by (rule snapshot_built_from)
  from rows i b c have "il' = il" "bl' = bl" "cl' = cl"
    by (simp_all add: returns_rows_unique)
  with v have v': "validate_opt_str pyd (py_or (dict_get (first_or_empty il) ''date'')
                 (py_or (dict_get (first_or_empty bl) ''date'')
                        (dict_get (first_or_empty cl) ''date'')))
       = Some (asOf snap)" by simp
  show ?thesis
    using v' by auto
qed

theorem snapshot_asOf_priority_witness:
  "returns_rows apple_upstream (income_request (get_client demo_env) ''aapl'' 1) [income_2023]
   \<and> returns_rows apple_upstream (balance_request (get_client demo_env) ''aapl'') [balance_2023]
   \<and> returns_rows apple_upstream (cashflow_request (get_client demo_env) ''aapl'')
        [cashflow_2023]
   \<and> fst (route_snapshot strict demo_env apple_upstream ''aapl'') =
       \<lparr>status_code = 200, content = Model apple_snapshot\<rparr>
   \<and> dict_get income_2023 ''date'' = JStr ''2023-12-31''
   \<and> dict_get balance_2023 ''date'' = JStr ''2023-12-30''
   \<and> dict_get cashflow_2023 ''date'' = JStr ''2023-12-29''
   \<and> asOf apple_snapshot = Some ''2023-12-31''"
proof -
  have d: "dict_get income_2023 ''date'' = JStr ''2023-12-31''"
          "dict_get balance_2023 ''date'' = JStr ''2023-12-30''"
          "dict_get cashflow_2023 ''date'' = JStr ''2023-12-29''"
    by (simp_all add: dict_get_def fixture_defs)
  from snapshot_asOf_priority [OF apple_upstream_rows(2-4) apple_snapshot_response]
  have "asOf apple_snapshot = Some ''2023-12-31''"
    by (simp add: d)
  with d show ?thesis
    by (simp add: apple_upstream_rows apple_snapshot_response)
qed

text \<open>The second example of the specification: without an income date, the balance date.\<close>

lemma snapshot_asOf_income_undated:
  "dict_get income_undated ''date'' = JNull
   \<and> dict_get balance_2023 ''date'' = JStr ''2023-12-30''
   \<and> (\<exists>snap. fst (route_snapshot strict demo_env apple_upstream_undated ''aapl'') =
                \<lparr>status_code = 200, content = Model snap\<rparr>
             \<and> asOf snap = Some ''2023-12-30'')"
  by (simp add: apple_snapshot_undated_response dict_get_def fixture_defs)

text \<open>
  C10. In every successful snapshot response \<open>name\<close> is the profile's \<open>companyName\<close>, or
  its \<open>name\<close> when \<open>companyName\<close> is absent or empty, and \<open>exchange\<close> is the profile's
  \<open>exchangeShortName\<close>, or its \<open>exchange\<close> when \<open>exchangeShortName\<close> is absent or empty.
\<close>

theorem snapshot_name_exchange_fallback:
  assumes p: "returns_rows up (profile_request (get_client e) symb) (profile # rest)"
      and ok: "fst (route_snapshot pyd e up symb) = \<lparr>status_code = 200, content = Model snap\<rparr>"
  shows "(\<forall>s. dict_get profile ''companyName'' = JStr s \<and> s \<noteq> []
              \<longrightarrow> CompanySnapshot.name snap = Some s)
       \<and> ((dict_get profile ''companyName'' = JNull \<or> dict_get profile ''companyName'' = JStr [])
            \<and> is_str_or_null (dict_get profile ''name'')
              \<longrightarrow> CompanySnapshot.name snap = opt_str (dict_get profile ''name''))
       \<and> (\<forall>s. dict_get profile ''exchangeShortName'' = JStr s \<and> s \<noteq> []
              \<longrightarrow> CompanySnapshot.exchange snap = Some s)
       \<and> ((dict_get profile ''exchangeShortName'' = JNull
             \<or> dict_get profile ''exchangeShortName'' = JStr [])
            \<and> is_str_or_null (dict_get profile ''exchange'')
              \<longrightarrow> CompanySnapshot.exchange snap = opt_str (dict_get profile ''exchange''))"
proof -
  from ok obtain profile' rest' where
    p': "returns_rows up (profile_request (get_client e) symb) (profile' # rest')"
    and n: "validate_opt_str pyd (py_or (dict_get profile' ''companyName'')
                                        (dict_get profile' ''name''))
       = Some (CompanySnapshot.name snap)"
    and x: "validate_opt_str pyd (py_or (dict_get profile' ''exchangeShortName'')
                                 (dict_get profile' ''exchange''))
       = Some (CompanySnapshot.exchange snap)"
    by (rule snapshot_built_from)
  from returns_rows_unique [OF p p'] have "profile' = profile" by simp
  with n x have
    n': "validate_opt_str pyd (py_or (dict_get profile ''companyName'') (dict_get profile ''name''))
       = Some (CompanySnapshot.name snap)"
    and x': "validate_opt_str pyd (py_or (dict_get profile ''exchangeShortName'')
                                 (dict_get profile ''exchange''))
       = Some (CompanySnapshot.exchange snap)"
    by simp_all
  show ?thesis
    using n' x' by (auto simp: validate_opt_str_ok)
qed

theorem snapshot_name_exchange_fallback_witness:
  "returns_rows apple_upstream (profile_request (get_client demo_env) ''aapl'') [apple_profile]
   \<and> fst (route_snapshot strict demo_env apple_upstream ''aapl'') =
       \<lparr>status_code = 200, content = Model apple_snapshot\<rparr>
   \<and> dict_get apple_profile ''companyName'' = JStr ''Apple Inc.''
   \<and> dict_get apple_profile ''name'' = JStr ''Apple''
   \<and> dict_get apple_profile ''exchangeShortName'' = JStr ''NASDAQ''
   \<and> CompanySnapshot.name apple_snapshot = Some ''Apple Inc.''
   \<and> CompanySnapshot.exchange apple_snapshot = Some ''NASDAQ''"
proof -
  have d: "dict_get apple_profile ''companyName'' = JStr ''Apple Inc.''"
          "dict_get apple_profile ''name'' = JStr ''Apple''"
          "dict_get apple_profile ''exchangeShortName'' = JStr ''NASDAQ''"
    by (simp_all add: dict_get_def fixture_defs)
  from snapshot_name_exchange_fallback [OF apple_upstream_rows(1) apple_snapshot_response]
  have "CompanySnapshot.name apple_snapshot = Some ''Apple Inc.''"
       "CompanySnapshot.exchange apple_snapshot = Some ''NASDAQ''"
    by (simp_all add: d)
  with d show ?thesis
    by (simp add: apple_upstream_rows apple_snapshot_response)
qed


section \<open>Search\<close>









section \<open>History\<close>















section \<open>Failures\<close>
































section \<open>Timeouts\<close>

















section \<open>The kinds of failure\<close>



























end
